theory Spec2Isabelle
  imports Main
begin

section \<open>The INWX provider of libdns: data model\<close>

text \<open>
  The development follows \<^verbatim>\<open>src/provider.go\<close> (the four public operations and the
  record codec) and the JSON-RPC client beside it (the first file under
  \<^verbatim>\<open>src/unnamed\<close>). Go's \<^verbatim>\<open>int\<close> is modelled by \<open>int\<close> and \<^verbatim>\<open>uint\<close> by \<open>nat\<close>: the code only
  compares and copies them, except for the one multiplication of \<^verbatim>\<open>libdnsRecord\<close>,
  whose 64-bit wrap-around is written out.
\<close>

subsection \<open>The structs of the client\<close>

record nameserverRecord =
  ID :: string
  Name :: string
  Type :: string
  Content :: string
  TTL :: int
  Priority :: nat

record nameserverInfoRequest =
  info_Domain :: string
  info_Name :: string
  info_Type :: string
  info_Content :: string
  info_TTL :: int
  info_Priority :: nat

record nameserverCreateRecordRequest =
  create_Domain :: string
  create_Name :: string
  create_Type :: string
  create_Content :: string
  create_TTL :: int
  create_Priority :: nat

record nameserverUpdateRecordRequest =
  update_ID :: string
  update_Name :: string
  update_Type :: string
  update_Content :: string
  update_TTL :: int
  update_Priority :: nat

record nameserverDeleteRecordRequest =
  delete_ID :: string

record accountLoginRequest =
  User :: string
  Pass :: string

record accountUnlockRequest =
  TAN :: string

text \<open>The \<^verbatim>\<open>params any\<close> argument of \<^verbatim>\<open>call\<close>: one constructor per request struct the
  client passes, and \<open>NoParams\<close> for the \<^verbatim>\<open>nil\<close> of \<^verbatim>\<open>logout\<close>.\<close>

datatype params =
    InfoParams nameserverInfoRequest
  | CreateRecordParams nameserverCreateRecordRequest
  | UpdateRecordParams nameserverUpdateRecordRequest
  | DeleteRecordParams nameserverDeleteRecordRequest
  | LoginParams accountLoginRequest
  | UnlockParams accountUnlockRequest
  | NoParams

text \<open>The response envelope. \<open>'j\<close> is the type of the \<^verbatim>\<open>resData\<close> payload, which the
  client hands on undecoded.\<close>

record 'j response =
  Code :: int
  Message :: string
  ReasonCode :: string
  Reason :: string
  ResponseData :: 'j

record errorResponse =
  err_Code :: int
  err_Message :: string
  err_ReasonCode :: string
  err_Reason :: string

record client =
  endpointUrl :: string

subsection \<open>The records of libdns, as the provider observes them\<close>

text \<open>
  \<^verbatim>\<open>libdns.RR\<close> is the canonical quadruple; its \<^verbatim>\<open>TTL\<close> is a \<^verbatim>\<open>time.Duration\<close>, a signed
  64-bit count of nanoseconds.

  \<^verbatim>\<open>libdns.Record\<close> is an interface. The provider observes a value of it in two ways only:
  through its method \<^verbatim>\<open>RR()\<close>, and through the type switch of \<^verbatim>\<open>inwxRecord\<close>, which singles
  out the Go types \<^verbatim>\<open>libdns.MX\<close> and \<^verbatim>\<open>libdns.SRV\<close> and reads their fields. A record value is
  therefore the result of its \<^verbatim>\<open>RR()\<close> together with its Go type: \<open>IsMX\<close> with
  \<^verbatim>\<open>Preference\<close> and \<^verbatim>\<open>Target\<close>, \<open>IsSRV\<close> with \<^verbatim>\<open>Priority\<close>, \<^verbatim>\<open>Weight\<close>, \<^verbatim>\<open>Port\<close> and
  \<^verbatim>\<open>Target\<close>, or \<open>IsOther\<close> for every other type (\<^verbatim>\<open>libdns.RR\<close> itself, \<^verbatim>\<open>TXT\<close>,
  \<^verbatim>\<open>Address\<close>, \<^verbatim>\<open>CNAME\<close>, \<^verbatim>\<open>ServiceBinding\<close>, ...).
\<close>

record RR =
  rr_Name :: string
  rr_TTL :: int
  rr_Type :: string
  rr_Data :: string

datatype gotype =
    IsMX nat string
  | IsSRV nat nat nat string
  | IsOther

record Record =
  rr :: RR
  gotype :: gotype

subsection \<open>Errors\<close>

text \<open>
  Every error value of the code is a value of \<open>error\<close>:
  \<^item> \<open>LibraryError\<close>: an error returned by a library call (\<^verbatim>\<open>encoding/json\<close>, \<^verbatim>\<open>net/http\<close>,
    \<^verbatim>\<open>io\<close>, \<^verbatim>\<open>cookiejar\<close>, \<^verbatim>\<open>totp\<close>, libdns's \<^verbatim>\<open>Parse\<close>), with its message;
  \<^item> \<open>ErrorResponse\<close>: the \<^verbatim>\<open>*errorResponse\<close> of \<^verbatim>\<open>checkResponse\<close>;
  \<^item> \<open>IDNotSet\<close>: \<^verbatim>\<open>"record cannot be updated because the ID is not set"\<close>;
  \<^item> \<open>MoreThanOne r\<close>: \<^verbatim>\<open>"unexpectedly found more than 1 record for %v"\<close> of record \<open>r\<close>;
  \<^item> \<open>ParsingRecord n e\<close>: \<^verbatim>\<open>"parsing INWX DNS record %+v: %v"\<close> of the native record
    \<open>n\<close> and the parser's error \<open>e\<close>.
\<close>

datatype error =
    LibraryError string
  | ErrorResponse errorResponse
  | IDNotSet
  | MoreThanOne Record
  | ParsingRecord nameserverRecord error

section \<open>The JSON-RPC client\<close>

subsection \<open>The environment: transport and libraries\<close>

text \<open>
  What the code calls and the repository does not define is a field of the environment:
  \<^item> \<open>roundTrip url m ps w\<close>: the body of \<^verbatim>\<open>call\<close> up to the decoded envelope, that is,
    marshalling the request, the HTTP POST to \<open>url\<close>, reading the body, decoding the
    envelope and re-marshalling its \<^verbatim>\<open>resData\<close>. \<open>w\<close> is the state of everything outside
    the process (the remote store, the cookie jar, the clock); any of these steps may
    fail with an error (\<open>Inl\<close>);
  \<^item> \<open>unmarshalInfo\<close>, \<open>unmarshalCreate\<close>, \<open>unmarshalLogin\<close>: \<^verbatim>\<open>json.Unmarshal\<close> of the
    payload into \<^verbatim>\<open>nameserverInfoResponse\<close>, \<^verbatim>\<open>nameserverCreateRecordResponse\<close> and
    \<^verbatim>\<open>accountLoginResponse\<close>, followed by the one field the client reads (\<^verbatim>\<open>Records\<close>,
    \<^verbatim>\<open>ID\<close>, \<^verbatim>\<open>TFA\<close>);
  \<^item> \<open>generateCode secret w\<close>: \<^verbatim>\<open>totp.GenerateCode(secret, time.Now())\<close>;
  \<^item> \<open>cookiejarNew\<close>: the error of \<^verbatim>\<open>cookiejar.New(nil)\<close>, if any;
  \<^item> \<open>RelativeName\<close> and \<open>Parse\<close>: \<^verbatim>\<open>libdns.RelativeName\<close> and \<^verbatim>\<open>libdns.RR.Parse\<close>.
\<close>

record ('w, 'j) env =
  roundTrip :: "string \<Rightarrow> string \<Rightarrow> params \<Rightarrow> 'w \<Rightarrow> (string + 'j response) \<times> 'w"
  unmarshalInfo :: "'j \<Rightarrow> string + nameserverRecord list"
  unmarshalCreate :: "'j \<Rightarrow> string + string"
  unmarshalLogin :: "'j \<Rightarrow> string + string"
  generateCode :: "string \<Rightarrow> 'w \<Rightarrow> string + string"
  cookiejarNew :: "string option"
  RelativeName :: "string \<Rightarrow> string \<Rightarrow> string"
  Parse :: "RR \<Rightarrow> string + Record"

text \<open>The state threaded through the client: the outside world, and the log of the
  calls of \<^verbatim>\<open>call\<close> made so far (method name and parameters), oldest first. The log is
  what the theorems below observe.\<close>

record 'w state =
  world :: 'w
  calls :: "(string \<times> params) list"

subsection \<open>checkResponse, ensureMinTTL, call\<close>

definition checkResponse :: "'j response \<Rightarrow> errorResponse option" where
  "checkResponse r =
     (if Code r \<ge> 1000 \<and> Code r \<le> 1500 then None
      else Some \<lparr>err_Code = Code r, err_Message = Message r,
                 err_ReasonCode = ReasonCode r, err_Reason = Reason r\<rparr>)"

definition ensureMinTTL :: "int \<Rightarrow> int" where
  "ensureMinTTL ttl = (if ttl < 300 then 300 else ttl)"

definition call :: "('w, 'j) env \<Rightarrow> client \<Rightarrow> string \<Rightarrow> params \<Rightarrow> 'w state
    \<Rightarrow> (error + 'j) \<times> 'w state" where
  "call env c m ps s =
     (case roundTrip env (endpointUrl c) m ps (world s) of
        (Inl e, w) \<Rightarrow> (Inl (LibraryError e), \<lparr>world = w, calls = calls s @ [(m, ps)]\<rparr>)
      | (Inr r, w) \<Rightarrow>
          (case checkResponse r of
             None \<Rightarrow> (Inr (ResponseData r), \<lparr>world = w, calls = calls s @ [(m, ps)]\<rparr>)
           | Some e \<Rightarrow> (Inl (ErrorResponse e), \<lparr>world = w, calls = calls s @ [(m, ps)]\<rparr>)))"

subsection \<open>The record methods of the client\<close>

definition getRecords :: "('w, 'j) env \<Rightarrow> client \<Rightarrow> string \<Rightarrow> 'w state
    \<Rightarrow> (error + nameserverRecord list) \<times> 'w state" where
  "getRecords env c domain s =
     (case call env c ''nameserver.info''
             (InfoParams \<lparr>info_Domain = domain, info_Name = '''', info_Type = '''',
                          info_Content = '''', info_TTL = 0, info_Priority = 0\<rparr>) s of
        (Inl e, s') \<Rightarrow> (Inl e, s')
      | (Inr d, s') \<Rightarrow>
          (case unmarshalInfo env d of
             Inl e \<Rightarrow> (Inl (LibraryError e), s')
           | Inr records \<Rightarrow> (Inr records, s')))"

definition findRequest :: "nameserverRecord \<Rightarrow> string \<Rightarrow> bool \<Rightarrow> nameserverInfoRequest" where
  "findRequest record domain matchContent =
     (let request = \<lparr>info_Domain = domain, info_Name = Name record, info_Type = Type record,
                      info_Content = '''', info_TTL = 0, info_Priority = 0\<rparr>
      in if matchContent then request\<lparr>info_Content := Content record\<rparr> else request)"

definition findRecords :: "('w, 'j) env \<Rightarrow> client \<Rightarrow> nameserverRecord \<Rightarrow> string \<Rightarrow> bool
    \<Rightarrow> 'w state \<Rightarrow> (error + nameserverRecord list) \<times> 'w state" where
  "findRecords env c record domain matchContent s =
     (case call env c ''nameserver.info'' (InfoParams (findRequest record domain matchContent)) s of
        (Inl e, s') \<Rightarrow> (Inl e, s')
      | (Inr d, s') \<Rightarrow>
          (case unmarshalInfo env d of
             Inl e \<Rightarrow> (Inl (LibraryError e), s')
           | Inr records \<Rightarrow> (Inr records, s')))"

definition createRequest :: "nameserverRecord \<Rightarrow> string \<Rightarrow> nameserverCreateRecordRequest" where
  "createRequest record domain =
     \<lparr>create_Domain = domain, create_Name = Name record, create_Type = Type record,
      create_Content = Content record, create_TTL = ensureMinTTL (TTL record),
      create_Priority = Priority record\<rparr>"

definition createRecord :: "('w, 'j) env \<Rightarrow> client \<Rightarrow> nameserverRecord \<Rightarrow> string
    \<Rightarrow> 'w state \<Rightarrow> (error + string) \<times> 'w state" where
  "createRecord env c record domain s =
     (case call env c ''nameserver.createRecord''
             (CreateRecordParams (createRequest record domain)) s of
        (Inl e, s') \<Rightarrow> (Inl e, s')
      | (Inr d, s') \<Rightarrow>
          (case unmarshalCreate env d of
             Inl e \<Rightarrow> (Inl (LibraryError e), s')
           | Inr newid \<Rightarrow> (Inr newid, s')))"

definition updateRequest :: "nameserverRecord \<Rightarrow> nameserverUpdateRecordRequest" where
  "updateRequest record =
     \<lparr>update_ID = ID record, update_Name = Name record, update_Type = Type record,
      update_Content = Content record, update_TTL = ensureMinTTL (TTL record),
      update_Priority = Priority record\<rparr>"

definition updateRecord :: "('w, 'j) env \<Rightarrow> client \<Rightarrow> nameserverRecord
    \<Rightarrow> 'w state \<Rightarrow> (error + unit) \<times> 'w state" where
  "updateRecord env c record s =
     (if ID record = '''' then (Inl IDNotSet, s)
      else
        (case call env c ''nameserver.updateRecord'' (UpdateRecordParams (updateRequest record)) s of
           (Inl e, s') \<Rightarrow> (Inl e, s')
         | (Inr d, s') \<Rightarrow> (Inr (), s')))"

definition deleteRecord :: "('w, 'j) env \<Rightarrow> client \<Rightarrow> nameserverRecord
    \<Rightarrow> 'w state \<Rightarrow> (error + unit) \<times> 'w state" where
  "deleteRecord env c record s =
     (case call env c ''nameserver.deleteRecord''
             (DeleteRecordParams \<lparr>delete_ID = ID record\<rparr>) s of
        (Inl e, s') \<Rightarrow> (Inl e, s')
      | (Inr d, s') \<Rightarrow> (Inr (), s'))"

subsection \<open>login, unlock, logout, newClient\<close>

definition unlock :: "('w, 'j) env \<Rightarrow> client \<Rightarrow> string \<Rightarrow> 'w state \<Rightarrow> (error + unit) \<times> 'w state" where
  "unlock env c tan s =
     (case call env c ''account.unlock'' (UnlockParams \<lparr>TAN = tan\<rparr>) s of
        (Inl e, s') \<Rightarrow> (Inl e, s')
      | (Inr d, s') \<Rightarrow> (Inr (), s'))"

definition login :: "('w, 'j) env \<Rightarrow> client \<Rightarrow> string \<Rightarrow> string \<Rightarrow> string \<Rightarrow> 'w state
    \<Rightarrow> (error + unit) \<times> 'w state" where
  "login env c username password sharedSecret s =
     (case call env c ''account.login'' (LoginParams \<lparr>User = username, Pass = password\<rparr>) s of
        (Inl e, s') \<Rightarrow> (Inl e, s')
      | (Inr d, s') \<Rightarrow>
          (case unmarshalLogin env d of
             Inl e \<Rightarrow> (Inl (LibraryError e), s')
           | Inr tfa \<Rightarrow>
               if tfa = ''GOOGLE-AUTH'' then
                 (case generateCode env sharedSecret (world s') of
                    Inl e \<Rightarrow> (Inl (LibraryError e), s')
                  | Inr tan \<Rightarrow> unlock env c tan s')
               else (Inr (), s')))"

definition logout :: "('w, 'j) env \<Rightarrow> client \<Rightarrow> 'w state \<Rightarrow> (error + unit) \<times> 'w state" where
  "logout env c s =
     (case call env c ''account.logout'' NoParams s of
        (Inl e, s') \<Rightarrow> (Inl e, s')
      | (Inr d, s') \<Rightarrow> (Inr (), s'))"

definition newClient :: "('w, 'j) env \<Rightarrow> string \<Rightarrow> error + client" where
  "newClient env url =
     (case cookiejarNew env of
        Some e \<Rightarrow> Inl (LibraryError e)
      | None \<Rightarrow> Inr \<lparr>endpointUrl = url\<rparr>)"

section \<open>The provider\<close>

subsection \<open>The record codec\<close>

text \<open>\<^verbatim>\<open>strings.TrimSuffix\<close>, and \<^verbatim>\<open>%d\<close> of \<^verbatim>\<open>fmt.Sprintf\<close> on an unsigned integer.\<close>

definition TrimSuffix :: "string \<Rightarrow> string \<Rightarrow> string" where
  "TrimSuffix s suffix =
     (if length suffix \<le> length s \<and> drop (length s - length suffix) s = suffix
      then take (length s - length suffix) s else s)"

definition getDomain :: "string \<Rightarrow> string" where
  "getDomain zone = TrimSuffix zone ''.''"

function fmt_d :: "nat \<Rightarrow> string" where
  "fmt_d n = (if n < 10 then [''0123456789'' ! n]
              else fmt_d (n div 10) @ [''0123456789'' ! (n mod 10)])"
  by pat_completeness auto
termination
  by (relation "measure id") auto

declare fmt_d.simps [simp del]

text \<open>
  \<^verbatim>\<open>int(rr.TTL.Seconds())\<close>: \<^verbatim>\<open>Seconds\<close> is the floating-point sum of the whole seconds and of
  the remaining nanoseconds divided by \<open>10\<^sup>9\<close>, and \<^verbatim>\<open>int\<close> truncates towards zero. The
  definition is the truncated quotient. It is the code's value on every whole number of
  seconds, where the sum is exact (the theorem on the codec assumes that much), and on
  every duration below \<open>2\<^sup>2\<^sup>4\<close> seconds; for a longer duration with a fraction close to
  one second the floating-point sum can round up to the next second.
\<close>

definition Seconds_int :: "int \<Rightarrow> int" where
  "Seconds_int d = (if d \<ge> 0 then d div 1000000000 else - ((- d) div 1000000000))"

text \<open>The product of two \<^verbatim>\<open>int64\<close> wraps around.\<close>

definition wrap64 :: "int \<Rightarrow> int" where
  "wrap64 x = (x + 9223372036854775808) mod 18446744073709551616 - 9223372036854775808"

text \<open>\<^verbatim>\<open>libdnsRR\<close> is the \<^verbatim>\<open>libdns.RR\<close> literal of \<^verbatim>\<open>libdnsRecord\<close>, which \<^verbatim>\<open>libdnsRecord\<close>
  then hands to \<^verbatim>\<open>Parse\<close>.\<close>

definition libdnsRR :: "('w, 'j) env \<Rightarrow> nameserverRecord \<Rightarrow> string \<Rightarrow> RR" where
  "libdnsRR env record zone =
     (let name = RelativeName env (Name record) (getDomain zone);
          ttl = wrap64 (TTL record * 1000000000);
          data = (if Type record = ''MX'' \<or> Type record = ''SRV''
                  then fmt_d (Priority record) @ '' '' @ Content record
                  else Content record)
      in \<lparr>rr_Name = name, rr_TTL = ttl, rr_Type = Type record, rr_Data = data\<rparr>)"

definition libdnsRecord :: "('w, 'j) env \<Rightarrow> nameserverRecord \<Rightarrow> string \<Rightarrow> string + Record" where
  "libdnsRecord env record zone = Parse env (libdnsRR env record zone)"

definition inwxRecord :: "Record \<Rightarrow> nameserverRecord" where
  "inwxRecord record =
     (let inwxRecord = \<lparr>ID = '''', Name = rr_Name (rr record), Type = rr_Type (rr record),
                         Content = rr_Data (rr record), TTL = Seconds_int (rr_TTL (rr record)),
                         Priority = 0\<rparr>
      in case gotype record of
           IsMX preference target \<Rightarrow>
             inwxRecord\<lparr>Content := target, Priority := preference\<rparr>
         | IsSRV priority weight port target \<Rightarrow>
             inwxRecord\<lparr>Content := fmt_d weight @ '' '' @ fmt_d port @ '' '' @ target,
                         Priority := priority\<rparr>
         | IsOther \<Rightarrow> inwxRecord)"



subsection \<open>The session of the provider\<close>

record Provider =
  Username :: string
  Password :: string
  SharedSecret :: string
  EndpointURL :: string
  client :: "client option"

definition endpointURL :: string where
  "endpointURL = ''https://api.domrobot.com/jsonrpc/''"

definition getEndpointURL :: "Provider \<Rightarrow> string" where
  "getEndpointURL p = (if EndpointURL p \<noteq> '''' then EndpointURL p else endpointURL)"

text \<open>\<^verbatim>\<open>getClient\<close> returns the error, or the client that \<^verbatim>\<open>p.client\<close> holds on return. The
  mutex is not modelled: the operations are followed one at a time.\<close>

definition getClient :: "('w, 'j) env \<Rightarrow> Provider \<Rightarrow> 'w state
    \<Rightarrow> (error + client) \<times> Provider \<times> 'w state" where
  "getClient env p s =
     (case client p of
        None \<Rightarrow>
          (case newClient env (getEndpointURL p) of
             Inl e \<Rightarrow> (Inl e, p\<lparr>client := None\<rparr>, s)
           | Inr c \<Rightarrow>
               (case login env c (Username p) (Password p) (SharedSecret p) s of
                  (Inl e, s') \<Rightarrow> (Inl e, p\<lparr>client := Some c\<rparr>, s')
                | (Inr u, s') \<Rightarrow> (Inr c, p\<lparr>client := Some c\<rparr>, s')))
      | Some c \<Rightarrow> (Inr c, p, s))"

definition removeClient :: "('w, 'j) env \<Rightarrow> Provider \<Rightarrow> 'w state \<Rightarrow> Provider \<times> 'w state" where
  "removeClient env p s =
     (case client p of
        None \<Rightarrow> (p, s)
      | Some c \<Rightarrow> (p\<lparr>client := None\<rparr>, snd (logout env c s)))"

subsection \<open>The four operations\<close>

text \<open>
  Each operation is \<^verbatim>\<open>getClient\<close>, the body, and the deferred \<^verbatim>\<open>removeClient\<close>, which runs
  on every return and cannot change the values already returned. Each \<^verbatim>\<open>for\<close> loop is a
  recursive function over the slice it ranges over, with the \<^verbatim>\<open>results\<close> slice as its
  accumulator. \<^verbatim>\<open>p.client\<close> in the bodies of \<^verbatim>\<open>SetRecords\<close> and \<^verbatim>\<open>DeleteRecords\<close> is the
  client that \<^verbatim>\<open>getClient\<close> returned.
\<close>

definition deferRemoveClient :: "('w, 'j) env \<Rightarrow> 'a \<times> Provider \<times> 'w state
    \<Rightarrow> 'a \<times> Provider \<times> 'w state" where
  "deferRemoveClient env x =
     (case x of (res, p, s) \<Rightarrow> (case removeClient env p s of (p', s') \<Rightarrow> (res, p', s')))"

fun GetRecords_loop :: "('w, 'j) env \<Rightarrow> string \<Rightarrow> nameserverRecord list \<Rightarrow> Record list
    \<Rightarrow> error + Record list" where
  "GetRecords_loop env zone [] results = Inr results"
| "GetRecords_loop env zone (inwxRec # inwxRecords) results =
     (case libdnsRecord env inwxRec zone of
        Inl e \<Rightarrow> Inl (ParsingRecord inwxRec (LibraryError e))
      | Inr result \<Rightarrow> GetRecords_loop env zone inwxRecords (results @ [result]))"

definition GetRecords :: "('w, 'j) env \<Rightarrow> Provider \<Rightarrow> string \<Rightarrow> 'w state
    \<Rightarrow> (error + Record list) \<times> Provider \<times> 'w state" where
  "GetRecords env p zone s =
     deferRemoveClient env
       (case getClient env p s of
          (Inl e, p1, s1) \<Rightarrow> (Inl e, p1, s1)
        | (Inr c, p1, s1) \<Rightarrow>
            (case getRecords env c (getDomain zone) s1 of
               (Inl e, s2) \<Rightarrow> (Inl e, p1, s2)
             | (Inr inwxRecords, s2) \<Rightarrow> (GetRecords_loop env zone inwxRecords [], p1, s2)))"

fun AppendRecords_loop :: "('w, 'j) env \<Rightarrow> client \<Rightarrow> string \<Rightarrow> Record list \<Rightarrow> Record list
    \<Rightarrow> 'w state \<Rightarrow> (error + Record list) \<times> 'w state" where
  "AppendRecords_loop env c zone [] results s = (Inr results, s)"
| "AppendRecords_loop env c zone (record # records) results s =
     (case createRecord env c (inwxRecord record) (getDomain zone) s of
        (Inl e, s') \<Rightarrow> (Inl e, s')
      | (Inr newid, s') \<Rightarrow> AppendRecords_loop env c zone records (results @ [record]) s')"

definition AppendRecords :: "('w, 'j) env \<Rightarrow> Provider \<Rightarrow> string \<Rightarrow> Record list \<Rightarrow> 'w state
    \<Rightarrow> (error + Record list) \<times> Provider \<times> 'w state" where
  "AppendRecords env p zone records s =
     deferRemoveClient env
       (case getClient env p s of
          (Inl e, p1, s1) \<Rightarrow> (Inl e, p1, s1)
        | (Inr c, p1, s1) \<Rightarrow>
            (case AppendRecords_loop env c zone records [] s1 of
               (res, s2) \<Rightarrow> (res, p1, s2)))"

text \<open>\<open>SetRecords_record\<close> is the body of the loop of \<^verbatim>\<open>SetRecords\<close> for one record: it
  returns the error on which the loop returns, or \<open>None\<close> where the body appends the record
  to \<^verbatim>\<open>results\<close> and goes on.\<close>

definition SetRecords_record :: "('w, 'j) env \<Rightarrow> client \<Rightarrow> string \<Rightarrow> Record \<Rightarrow> 'w state
    \<Rightarrow> error option \<times> 'w state" where
  "SetRecords_record env c zone record s =
     (case findRecords env c (inwxRecord record) (getDomain zone) False s of
        (Inl e, s1) \<Rightarrow> (Some e, s1)
      | (Inr matches, s1) \<Rightarrow>
          if length matches = 0 then
            (case createRecord env c (inwxRecord record) (getDomain zone) s1 of
               (Inl e, s2) \<Rightarrow> (Some e, s2)
             | (Inr newid, s2) \<Rightarrow> (None, s2))
          else if length matches > 1 then (Some (MoreThanOne record), s1)
          else
            (case updateRecord env c ((inwxRecord record)\<lparr>ID := ID (matches ! 0)\<rparr>) s1 of
               (Inl e, s2) \<Rightarrow> (Some e, s2)
             | (Inr u, s2) \<Rightarrow> (None, s2)))"

fun SetRecords_loop :: "('w, 'j) env \<Rightarrow> client \<Rightarrow> string \<Rightarrow> Record list \<Rightarrow> Record list
    \<Rightarrow> 'w state \<Rightarrow> (error + Record list) \<times> 'w state" where
  "SetRecords_loop env c zone [] results s = (Inr results, s)"
| "SetRecords_loop env c zone (record # records) results s =
     (case SetRecords_record env c zone record s of
        (Some e, s') \<Rightarrow> (Inl e, s')
      | (None, s') \<Rightarrow> SetRecords_loop env c zone records (results @ [record]) s')"

definition SetRecords :: "('w, 'j) env \<Rightarrow> Provider \<Rightarrow> string \<Rightarrow> Record list \<Rightarrow> 'w state
    \<Rightarrow> (error + Record list) \<times> Provider \<times> 'w state" where
  "SetRecords env p zone records s =
     deferRemoveClient env
       (case getClient env p s of
          (Inl e, p1, s1) \<Rightarrow> (Inl e, p1, s1)
        | (Inr c, p1, s1) \<Rightarrow>
            (case SetRecords_loop env c zone records [] s1 of
               (res, s2) \<Rightarrow> (res, p1, s2)))"

text \<open>The inner loop of \<^verbatim>\<open>DeleteRecords\<close> over the exact matches of one record, and the
  body of the outer loop. Both return the extended \<^verbatim>\<open>results\<close>, or the error on which
  \<^verbatim>\<open>DeleteRecords\<close> returns.\<close>

fun DeleteRecords_matches :: "('w, 'j) env \<Rightarrow> client \<Rightarrow> Record \<Rightarrow> nameserverRecord list
    \<Rightarrow> Record list \<Rightarrow> 'w state \<Rightarrow> (error + Record list) \<times> 'w state" where
  "DeleteRecords_matches env c record [] results s = (Inr results, s)"
| "DeleteRecords_matches env c record (inwxRec # exactMatches) results s =
     (case deleteRecord env c inwxRec s of
        (Inl e, s') \<Rightarrow> (Inl e, s')
      | (Inr u, s') \<Rightarrow> DeleteRecords_matches env c record exactMatches (results @ [record]) s')"

definition DeleteRecords_record :: "('w, 'j) env \<Rightarrow> client \<Rightarrow> string \<Rightarrow> Record \<Rightarrow> Record list
    \<Rightarrow> 'w state \<Rightarrow> (error + Record list) \<times> 'w state" where
  "DeleteRecords_record env c zone record results s =
     (case findRecords env c (inwxRecord record) (getDomain zone) True s of
        (Inl e, s1) \<Rightarrow> (Inl e, s1)
      | (Inr exactMatches, s1) \<Rightarrow> DeleteRecords_matches env c record exactMatches results s1)"

fun DeleteRecords_loop :: "('w, 'j) env \<Rightarrow> client \<Rightarrow> string \<Rightarrow> Record list \<Rightarrow> Record list
    \<Rightarrow> 'w state \<Rightarrow> (error + Record list) \<times> 'w state" where
  "DeleteRecords_loop env c zone [] results s = (Inr results, s)"
| "DeleteRecords_loop env c zone (record # records) results s =
     (case DeleteRecords_record env c zone record results s of
        (Inl e, s') \<Rightarrow> (Inl e, s')
      | (Inr results', s') \<Rightarrow> DeleteRecords_loop env c zone records results' s')"

definition DeleteRecords :: "('w, 'j) env \<Rightarrow> Provider \<Rightarrow> string \<Rightarrow> Record list \<Rightarrow> 'w state
    \<Rightarrow> (error + Record list) \<times> Provider \<times> 'w state" where
  "DeleteRecords env p zone records s =
     deferRemoveClient env
       (case getClient env p s of
          (Inl e, p1, s1) \<Rightarrow> (Inl e, p1, s1)
        | (Inr c, p1, s1) \<Rightarrow>
            (case DeleteRecords_loop env c zone records [] s1 of
               (res, s2) \<Rightarrow> (res, p1, s2)))"

subsection \<open>Two environments that differ in the logout only\<close>

text \<open>\<open>sameButLogout env env'\<close>: the two environments answer every call but
  \<^verbatim>\<open>account.logout\<close> alike, and have the same libraries.\<close>

definition sameButLogout :: "('w, 'j) env \<Rightarrow> ('w, 'j) env \<Rightarrow> bool" where
  "sameButLogout env env' =
     ((\<forall>url m ps w. m \<noteq> ''account.logout'' \<longrightarrow>
          roundTrip env url m ps w = roundTrip env' url m ps w)
      \<and> unmarshalInfo env = unmarshalInfo env'
      \<and> unmarshalCreate env = unmarshalCreate env'
      \<and> unmarshalLogin env = unmarshalLogin env'
      \<and> generateCode env = generateCode env'
      \<and> cookiejarNew env = cookiejarNew env'
      \<and> RelativeName env = RelativeName env'
      \<and> Parse env = Parse env')"

section \<open>A scripted remote, for evaluating the definitions\<close>

text \<open>
  The concrete environment of the examples below. The outside world is the list of the
  answers still to come: each round trip takes the first one, whatever the request, and
  fails with \<^verbatim>\<open>EOF\<close> when none is left. A payload is already decoded: a list of native
  records, a record id, or the \<^verbatim>\<open>tfa\<close> field of a login; decoding a payload of another shape
  leaves the zero value, as \<^verbatim>\<open>json.Unmarshal\<close> does with an object that lacks the field.
  \<open>Broken\<close> is a payload that no decoder accepts.
\<close>

datatype payload =
    RecordsData "nameserverRecord list"
  | IdData string
  | TfaData string
  | NullData
  | Broken

type_synonym script = "(string + payload response) list"

definition scripted_roundTrip :: "string \<Rightarrow> string \<Rightarrow> params \<Rightarrow> script
    \<Rightarrow> (string + payload response) \<times> script" where
  "scripted_roundTrip url m ps w = (case w of [] \<Rightarrow> (Inl ''EOF'', []) | a # w' \<Rightarrow> (a, w'))"

definition ok :: "payload \<Rightarrow> string + payload response" where
  "ok d = Inr \<lparr>Code = 1000, Message = ''Command completed successfully'', ReasonCode = '''',
              Reason = '''', ResponseData = d\<rparr>"

definition failed :: "int \<Rightarrow> string \<Rightarrow> string + payload response" where
  "failed code msg = Inr \<lparr>Code = code, Message = msg, ReasonCode = '''', Reason = '''',
                        ResponseData = NullData\<rparr>"

text \<open>Modelled from the spec: \<^verbatim>\<open>libdns.RelativeName\<close> is not under \<^verbatim>\<open>src/\<close>.
  \<open>RelativeName_trim\<close> strips the zone suffix and the separator before it (``stripping the
  fully-qualified zone suffix from the native name''). Only the examples use it.\<close>

definition RelativeName_trim :: "string \<Rightarrow> string \<Rightarrow> string" where
  "RelativeName_trim fqdn zone = TrimSuffix (TrimSuffix fqdn zone) ''.''"

text \<open>Modelled from the spec: \<^verbatim>\<open>libdns.RR.Parse\<close> is not under \<^verbatim>\<open>src/\<close>. \<open>toMX\<close> is its
  grammar of the type \<^verbatim>\<open>MX\<close> (``\<^verbatim>\<open><priority> <content>\<close>''): exactly two fields separated by
  white space (\<^verbatim>\<open>strings.Fields\<close>), the first a decimal number below \<open>2\<^sup>1\<^sup>6\<close>
  (\<^verbatim>\<open>strconv.ParseUint\<close>), the second the target. Only the examples use it.\<close>

fun Fields_acc :: "string \<Rightarrow> string \<Rightarrow> string list" where
  "Fields_acc [] cur = (if cur = [] then [] else [cur])"
| "Fields_acc (ch # s) cur =
     (if ch \<in> set [CHR '' '', CHR 0x09, CHR 0x0A, CHR 0x0B, CHR 0x0C, CHR 0x0D]
      then (if cur = [] then Fields_acc s [] else cur # Fields_acc s [])
      else Fields_acc s (cur @ [ch]))"

definition Fields :: "string \<Rightarrow> string list" where
  "Fields s = Fields_acc s []"

fun digit_val :: "char \<Rightarrow> nat option" where
  "digit_val ch =
     (if ch = CHR ''0'' then Some 0 else if ch = CHR ''1'' then Some 1
      else if ch = CHR ''2'' then Some 2 else if ch = CHR ''3'' then Some 3
      else if ch = CHR ''4'' then Some 4 else if ch = CHR ''5'' then Some 5
      else if ch = CHR ''6'' then Some 6 else if ch = CHR ''7'' then Some 7
      else if ch = CHR ''8'' then Some 8 else if ch = CHR ''9'' then Some 9
      else None)"

fun ParseUint_acc :: "string \<Rightarrow> nat \<Rightarrow> nat option" where
  "ParseUint_acc [] acc = Some acc"
| "ParseUint_acc (ch # s) acc =
     (case digit_val ch of None \<Rightarrow> None | Some v \<Rightarrow> ParseUint_acc s (acc * 10 + v))"

definition ParseUint16 :: "string \<Rightarrow> nat option" where
  "ParseUint16 s =
     (if s = [] then None
      else case ParseUint_acc s 0 of
             None \<Rightarrow> None
           | Some n \<Rightarrow> if n < 65536 then Some n else None)"

definition toMX :: "RR \<Rightarrow> string + Record" where
  "toMX r =
     (if rr_Type r \<noteq> ''MX'' then Inl ''record type not MX''
      else case Fields (rr_Data r) of
             [f0, f1] \<Rightarrow>
               (case ParseUint16 f0 of
                  None \<Rightarrow> Inl ''invalid priority''
                | Some preference \<Rightarrow>
                    Inr \<lparr>rr = \<lparr>rr_Name = rr_Name r, rr_TTL = rr_TTL r, rr_Type = ''MX'',
                                rr_Data = fmt_d preference @ '' '' @ f1\<rparr>,
                         gotype = IsMX preference f1\<rparr>)
           | _ \<Rightarrow> Inl ''malformed MX value'')"

definition Parse_MX :: "RR \<Rightarrow> string + Record" where
  "Parse_MX r = (if rr_Type r = ''MX'' then toMX r else Inr \<lparr>rr = r, gotype = IsOther\<rparr>)"

definition base32 :: "string \<Rightarrow> bool" where
  "base32 secret = (set secret \<subseteq> set ''ABCDEFGHIJKLMNOPQRSTUVWXYZ234567='')"

text \<open>In the scripted environment a record of a type other than \<^verbatim>\<open>MX\<close> parses to itself,
  and the one-time code of a well-formed (base 32) secret is \<^verbatim>\<open>000000\<close>.\<close>

definition scripted :: "(script, payload) env" where
  "scripted =
     \<lparr>roundTrip = scripted_roundTrip,
      unmarshalInfo = (\<lambda>d. case d of RecordsData rs \<Rightarrow> Inr rs
                                    | Broken \<Rightarrow> Inl ''unexpected end of JSON input''
                                    | _ \<Rightarrow> Inr []),
      unmarshalCreate = (\<lambda>d. case d of IdData i \<Rightarrow> Inr i
                                      | Broken \<Rightarrow> Inl ''unexpected end of JSON input''
                                      | _ \<Rightarrow> Inr ''''),
      unmarshalLogin = (\<lambda>d. case d of TfaData t \<Rightarrow> Inr t
                                     | Broken \<Rightarrow> Inl ''unexpected end of JSON input''
                                     | _ \<Rightarrow> Inr ''''),
      generateCode = (\<lambda>secret w. if base32 secret then Inr ''000000''
                                 else Inl ''Decoding of secret as base32 failed.''),
      cookiejarNew = None,
      RelativeName = RelativeName_trim,
      Parse = Parse_MX\<rparr>"

definition start :: "script \<Rightarrow> script state" where
  "start w = \<lparr>world = w, calls = []\<rparr>"

definition test_client :: client where
  "test_client = \<lparr>endpointUrl = ''https://api.ote.domrobot.com/jsonrpc/''\<rparr>"

definition test_provider :: Provider where
  "test_provider = \<lparr>Username = ''user'', Password = ''secret'', SharedSecret = '''',
                     EndpointURL = ''https://api.ote.domrobot.com/jsonrpc/'', client = None\<rparr>"

text \<open>Modelled from the spec: the record values of the examples are a \<^verbatim>\<open>libdns.TXT\<close> and a
  \<^verbatim>\<open>libdns.MX\<close>, as the tests of the repository build them, and the methods \<^verbatim>\<open>RR()\<close> of these
  types are not under \<^verbatim>\<open>src/\<close>. The data of a \<^verbatim>\<open>TXT\<close> is its text; that of an \<^verbatim>\<open>MX\<close> is as
  \<open>canonical\<close> says. \<open>Second\<close> is \<^verbatim>\<open>time.Second\<close>.\<close>

definition TXT :: "string \<Rightarrow> int \<Rightarrow> string \<Rightarrow> Record" where
  "TXT name ttl txt =
     \<lparr>rr = \<lparr>rr_Name = name, rr_TTL = ttl, rr_Type = ''TXT'', rr_Data = txt\<rparr>, gotype = IsOther\<rparr>"

definition MX :: "string \<Rightarrow> int \<Rightarrow> nat \<Rightarrow> string \<Rightarrow> Record" where
  "MX name ttl preference target =
     \<lparr>rr = \<lparr>rr_Name = name, rr_TTL = ttl, rr_Type = ''MX'',
             rr_Data = fmt_d preference @ '' '' @ target\<rparr>,
      gotype = IsMX preference target\<rparr>"

definition Second :: int where
  "Second = 1000000000"

text \<open>A second scripted environment, in which every \<^verbatim>\<open>account.logout\<close> fails in the
  transport and leaves the script as it is.\<close>

definition scripted_logout_fails :: "(script, payload) env" where
  "scripted_logout_fails =
     scripted\<lparr>roundTrip := (\<lambda>url m ps w.
        if m = ''account.logout'' then (Inl ''connection reset by peer'', w)
        else scripted_roundTrip url m ps w)\<rparr>"

section \<open>Evaluation\<close>

text \<open>The definitions that the examples unfold.\<close>

lemmas client_defs =
  call_def checkResponse_def ensureMinTTL_def getRecords_def findRequest_def findRecords_def
  createRequest_def createRecord_def updateRequest_def updateRecord_def deleteRecord_def
  unlock_def login_def logout_def newClient_def

lemmas provider_defs =
  getDomain_def TrimSuffix_def libdnsRR_def libdnsRecord_def inwxRecord_def Seconds_int_def
  wrap64_def getEndpointURL_def getClient_def removeClient_def deferRemoveClient_def
  GetRecords_def AppendRecords_def SetRecords_record_def SetRecords_def
  DeleteRecords_record_def DeleteRecords_def

lemmas scripted_defs =
  scripted_def scripted_roundTrip_def ok_def failed_def start_def test_client_def
  test_provider_def TXT_def MX_def Second_def RelativeName_trim_def Parse_MX_def toMX_def
  Fields_def ParseUint16_def base32_def

section \<open>The client: status band, TTL floor, update guard\<close>

lemma calls_call [simp]: "calls (snd (call env c m ps s)) = calls s @ [(m, ps)]"
  by (simp add: call_def split: prod.splits sum.splits option.splits)

lemma calls_createRecord:
  "calls (snd (createRecord env c record domain s)) =
     calls s @ [(''nameserver.createRecord'', CreateRecordParams (createRequest record domain))]"
proof -
  have "snd (createRecord env c record domain s) =
        snd (call env c ''nameserver.createRecord''
               (CreateRecordParams (createRequest record domain)) s)"
    by (simp add: createRecord_def split: prod.splits sum.splits)
  then show ?thesis by simp
qed

lemma calls_updateRecord:
  "ID record \<noteq> '''' \<Longrightarrow>
   calls (snd (updateRecord env c record s)) =
     calls s @ [(''nameserver.updateRecord'', UpdateRecordParams (updateRequest record))]"
proof -
  assume "ID record \<noteq> ''''"
  then have "snd (updateRecord env c record s) =
        snd (call env c ''nameserver.updateRecord''
               (UpdateRecordParams (updateRequest record)) s)"
    by (simp add: updateRecord_def split: prod.splits sum.splits)
  then show ?thesis by simp
qed

lemma calls_deleteRecord:
  "calls (snd (deleteRecord env c record s)) =
     calls s @ [(''nameserver.deleteRecord'', DeleteRecordParams \<lparr>delete_ID = ID record\<rparr>)]"
proof -
  have "snd (deleteRecord env c record s) =
        snd (call env c ''nameserver.deleteRecord''
               (DeleteRecordParams \<lparr>delete_ID = ID record\<rparr>) s)"
    by (simp add: deleteRecord_def split: prod.splits sum.splits)
  then show ?thesis by simp
qed


text \<open>
  C5. Whatever envelope the transport delivers, \<^verbatim>\<open>call\<close> succeeds exactly when its status
  code lies between 1000 and 1500, both included, and then returns the payload;
  otherwise it returns the error that carries the code, the message, the reason code and
  the reason of the envelope, unchanged.
\<close>

theorem call_status_band:
  assumes "roundTrip env (endpointUrl c) m ps (world s) = (Inr r, w)"
  shows "(checkResponse r = None) = (1000 \<le> Code r \<and> Code r \<le> 1500)
       \<and> (\<exists>d. fst (call env c m ps s) = Inr d) = (1000 \<le> Code r \<and> Code r \<le> 1500)
       \<and> fst (call env c m ps s) =
           (if 1000 \<le> Code r \<and> Code r \<le> 1500 then Inr (ResponseData r)
            else Inl (ErrorResponse \<lparr>err_Code = Code r, err_Message = Message r,
                                      err_ReasonCode = ReasonCode r, err_Reason = Reason r\<rparr>))"
  using assms by (auto simp: call_def checkResponse_def)

theorem call_status_band_witness:
  "fst (call scripted test_client ''nameserver.createRecord'' NoParams
          (start [failed 2302 ''Object exists''])) =
     Inl (ErrorResponse \<lparr>err_Code = 2302, err_Message = ''Object exists'',
                          err_ReasonCode = '''', err_Reason = ''''\<rparr>)
   \<and> fst (call scripted test_client ''nameserver.info'' NoParams (start [ok NullData])) =
       Inr NullData"
proof -
  have a: "roundTrip scripted (endpointUrl test_client) ''nameserver.createRecord'' NoParams
             (world (start [failed 2302 ''Object exists''])) =
           (failed 2302 ''Object exists'', [])"
    by (simp add: scripted_def scripted_roundTrip_def start_def)
  have b: "roundTrip scripted (endpointUrl test_client) ''nameserver.info'' NoParams
             (world (start [ok NullData])) = (ok NullData, [])"
    by (simp add: scripted_def scripted_roundTrip_def start_def)
  show ?thesis
    using call_status_band [OF a [unfolded failed_def]]
          call_status_band [OF b [unfolded ok_def]]
    by (simp add: failed_def ok_def)
qed

lemma call_calls: "call env c m ps s = (r, s') \<Longrightarrow> calls s' = calls s @ [(m, ps)]"
  using calls_call [of env c m ps s] by simp

text \<open>
  C4. The request that \<^verbatim>\<open>createRecord\<close> sends, and the one that \<^verbatim>\<open>updateRecord\<close> sends for a
  record with an id, carry 300 as TTL when the record's TTL is below 300 and the record's
  own TTL otherwise; the other fields are copied. The raise is silent: writing a record
  is writing the record with its TTL raised to the floor, with the same result and the
  same state after it.
\<close>

theorem write_ttl_floor:
  "calls (snd (createRecord env c record domain s)) =
     calls s @ [(''nameserver.createRecord'', CreateRecordParams
        \<lparr>create_Domain = domain, create_Name = Name record, create_Type = Type record,
         create_Content = Content record,
         create_TTL = (if TTL record < 300 then 300 else TTL record),
         create_Priority = Priority record\<rparr>)]
   \<and> (ID record \<noteq> '''' \<longrightarrow>
        calls (snd (updateRecord env c record s)) =
          calls s @ [(''nameserver.updateRecord'', UpdateRecordParams
             \<lparr>update_ID = ID record, update_Name = Name record, update_Type = Type record,
              update_Content = Content record,
              update_TTL = (if TTL record < 300 then 300 else TTL record),
              update_Priority = Priority record\<rparr>)])
   \<and> createRecord env c record domain s =
       createRecord env c (record\<lparr>TTL := (if TTL record < 300 then 300 else TTL record)\<rparr>)
         domain s
   \<and> updateRecord env c record s =
       updateRecord env c (record\<lparr>TTL := (if TTL record < 300 then 300 else TTL record)\<rparr>) s"
proof (intro conjI)
  show "calls (snd (createRecord env c record domain s)) =
     calls s @ [(''nameserver.createRecord'', CreateRecordParams
        \<lparr>create_Domain = domain, create_Name = Name record, create_Type = Type record,
         create_Content = Content record,
         create_TTL = (if TTL record < 300 then 300 else TTL record),
         create_Priority = Priority record\<rparr>)]"
    by (simp add: calls_createRecord createRequest_def ensureMinTTL_def)
  show "ID record \<noteq> '''' \<longrightarrow>
        calls (snd (updateRecord env c record s)) =
          calls s @ [(''nameserver.updateRecord'', UpdateRecordParams
             \<lparr>update_ID = ID record, update_Name = Name record, update_Type = Type record,
              update_Content = Content record,
              update_TTL = (if TTL record < 300 then 300 else TTL record),
              update_Priority = Priority record\<rparr>)]"
    by (simp add: calls_updateRecord updateRequest_def ensureMinTTL_def)
  show "createRecord env c record domain s =
       createRecord env c (record\<lparr>TTL := (if TTL record < 300 then 300 else TTL record)\<rparr>)
         domain s"
    by (simp add: createRecord_def createRequest_def ensureMinTTL_def)
  show "updateRecord env c record s =
       updateRecord env c (record\<lparr>TTL := (if TTL record < 300 then 300 else TTL record)\<rparr>) s"
    by (simp add: updateRecord_def updateRequest_def ensureMinTTL_def)
qed

theorem write_ttl_floor_witness:
  "calls (snd (createRecord scripted test_client
       \<lparr>ID = '''', Name = ''test_1'', Type = ''TXT'', Content = ''v'', TTL = 60, Priority = 0\<rparr>
       ''example.com'' (start [ok (IdData ''7'')]))) =
     [(''nameserver.createRecord'', CreateRecordParams
        \<lparr>create_Domain = ''example.com'', create_Name = ''test_1'', create_Type = ''TXT'',
         create_Content = ''v'', create_TTL = 300, create_Priority = 0\<rparr>)]
   \<and> calls (snd (updateRecord scripted test_client
       \<lparr>ID = ''7'', Name = ''test_1'', Type = ''TXT'', Content = ''v'', TTL = 3600, Priority = 0\<rparr>
       (start [ok NullData]))) =
     [(''nameserver.updateRecord'', UpdateRecordParams
        \<lparr>update_ID = ''7'', update_Name = ''test_1'', update_Type = ''TXT'',
         update_Content = ''v'', update_TTL = 3600, update_Priority = 0\<rparr>)]"
  using write_ttl_floor [of scripted test_client
          "\<lparr>ID = '''', Name = ''test_1'', Type = ''TXT'', Content = ''v'', TTL = 60, Priority = 0\<rparr>"
          "''example.com''" "start [ok (IdData ''7'')]", THEN conjunct1]
        write_ttl_floor [of scripted test_client
          "\<lparr>ID = ''7'', Name = ''test_1'', Type = ''TXT'', Content = ''v'', TTL = 3600, Priority = 0\<rparr>"
          "''example.com''" "start [ok NullData]", THEN conjunct2, THEN conjunct1]
  by (simp add: start_def)

text \<open>
  C10. \<^verbatim>\<open>updateRecord\<close> of a record whose id is the empty string returns an error and leaves
  the state as it was: no call is made. With any other id it makes exactly one call,
  \<^verbatim>\<open>nameserver.updateRecord\<close> carrying that id, and returns the error of that call, if
  any.
\<close>

theorem updateRecord_needs_ID:
  "(ID record = '''' \<longrightarrow> updateRecord env c record s = (Inl IDNotSet, s))
   \<and> (ID record \<noteq> '''' \<longrightarrow>
        snd (updateRecord env c record s) =
          snd (call env c ''nameserver.updateRecord''
                 (UpdateRecordParams (updateRequest record)) s)
        \<and> fst (updateRecord env c record s) =
            (case fst (call env c ''nameserver.updateRecord''
                         (UpdateRecordParams (updateRequest record)) s) of
               Inl e \<Rightarrow> Inl e | Inr d \<Rightarrow> Inr ())
        \<and> update_ID (updateRequest record) = ID record
        \<and> calls (snd (updateRecord env c record s)) =
            calls s @ [(''nameserver.updateRecord'', UpdateRecordParams (updateRequest record))])"
  by (auto simp: updateRecord_def updateRequest_def split: prod.splits sum.splits
        dest: call_calls)

theorem updateRecord_needs_ID_witness:
  "updateRecord scripted test_client
       \<lparr>ID = '''', Name = ''test_1'', Type = ''TXT'', Content = ''v'', TTL = 300, Priority = 0\<rparr>
       (start [ok NullData]) = (Inl IDNotSet, start [ok NullData])
   \<and> updateRecord scripted test_client
       \<lparr>ID = ''7'', Name = ''test_1'', Type = ''TXT'', Content = ''v'', TTL = 300, Priority = 0\<rparr>
       (start [ok NullData]) =
       (Inr (), \<lparr>world = [], calls = [(''nameserver.updateRecord'', UpdateRecordParams
           \<lparr>update_ID = ''7'', update_Name = ''test_1'', update_Type = ''TXT'',
            update_Content = ''v'', update_TTL = 300, update_Priority = 0\<rparr>)]\<rparr>)"
  using updateRecord_needs_ID [of
          "\<lparr>ID = '''', Name = ''test_1'', Type = ''TXT'', Content = ''v'', TTL = 300, Priority = 0\<rparr>"
          scripted test_client "start [ok NullData]"]
        updateRecord_needs_ID [of
          "\<lparr>ID = ''7'', Name = ''test_1'', Type = ''TXT'', Content = ''v'', TTL = 300, Priority = 0\<rparr>"
          scripted test_client "start [ok NullData]"]
  by (simp add: prod_eq_iff call_def scripted_def scripted_roundTrip_def start_def ok_def
        checkResponse_def updateRequest_def ensureMinTTL_def)

section \<open>Opening a session\<close>

lemma calls_unlock:
  "calls (snd (unlock env c tan s)) = calls s @ [(''account.unlock'', UnlockParams \<lparr>TAN = tan\<rparr>)]"
proof -
  have "snd (unlock env c tan s) =
        snd (call env c ''account.unlock'' (UnlockParams \<lparr>TAN = tan\<rparr>) s)"
    by (simp add: unlock_def split: prod.splits sum.splits)
  then show ?thesis by simp
qed

text \<open>
  C7. \<^verbatim>\<open>login\<close> first calls \<^verbatim>\<open>account.login\<close> with the user name and the password. Let \<open>r\<close>
  be the result of that call and \<open>s1\<close> the state after it.
  \<^item> If the call fails (a rejected login is an error response), \<^verbatim>\<open>login\<close> fails with that
    error and calls nothing else; so it does if the payload cannot be decoded.
  \<^item> If the decoded \<^verbatim>\<open>tfa\<close> field is not \<^verbatim>\<open>GOOGLE-AUTH\<close>, \<^verbatim>\<open>login\<close> succeeds and calls nothing
    else.
  \<^item> If it is \<^verbatim>\<open>GOOGLE-AUTH\<close>, a one-time code is generated from the shared secret: when
    that fails, \<^verbatim>\<open>login\<close> fails with its error and calls nothing else; otherwise \<^verbatim>\<open>login\<close>
    is the call of \<^verbatim>\<open>account.unlock\<close> with that code, and succeeds exactly when it does.
\<close>

theorem login_two_factor:
  assumes "call env c ''account.login'' (LoginParams \<lparr>User = username, Pass = password\<rparr>) s
             = (r, s1)"
  shows "(\<forall>e. r = Inl e \<longrightarrow> login env c username password sharedSecret s = (Inl e, s1))
    \<and> (\<forall>d e. r = Inr d \<and> unmarshalLogin env d = Inl e \<longrightarrow>
          login env c username password sharedSecret s = (Inl (LibraryError e), s1))
    \<and> (\<forall>d tfa. r = Inr d \<and> unmarshalLogin env d = Inr tfa \<and> tfa \<noteq> ''GOOGLE-AUTH'' \<longrightarrow>
          login env c username password sharedSecret s = (Inr (), s1))
    \<and> (\<forall>d e. r = Inr d \<and> unmarshalLogin env d = Inr ''GOOGLE-AUTH''
              \<and> generateCode env sharedSecret (world s1) = Inl e \<longrightarrow>
          login env c username password sharedSecret s = (Inl (LibraryError e), s1))
    \<and> (\<forall>d tan. r = Inr d \<and> unmarshalLogin env d = Inr ''GOOGLE-AUTH''
              \<and> generateCode env sharedSecret (world s1) = Inr tan \<longrightarrow>
          login env c username password sharedSecret s = unlock env c tan s1
          \<and> calls (snd (login env c username password sharedSecret s)) =
              calls s @ [(''account.login'', LoginParams \<lparr>User = username, Pass = password\<rparr>),
                         (''account.unlock'', UnlockParams \<lparr>TAN = tan\<rparr>)]
          \<and> (fst (login env c username password sharedSecret s) = Inr ()) =
              (\<exists>d'. fst (call env c ''account.unlock'' (UnlockParams \<lparr>TAN = tan\<rparr>) s1) = Inr d'))
    \<and> calls s1 = calls s @ [(''account.login'', LoginParams \<lparr>User = username, Pass = password\<rparr>)]"
proof -
  have s1: "calls s1 =
      calls s @ [(''account.login'', LoginParams \<lparr>User = username, Pass = password\<rparr>)]"
    using assms by (rule call_calls)
  have unl: "\<And>tan. (fst (unlock env c tan s1) = Inr ()) =
      (\<exists>d'. fst (call env c ''account.unlock'' (UnlockParams \<lparr>TAN = tan\<rparr>) s1) = Inr d')"
    by (auto simp: unlock_def split: prod.splits sum.splits)
  show ?thesis
    using assms s1 unl by (auto simp: login_def calls_unlock)
qed

theorem login_two_factor_witness:
  "login scripted test_client ''user'' ''secret'' ''JBSWY3DPEHPK3PXP''
      (start [ok (TfaData ''GOOGLE-AUTH''), ok NullData]) =
     (Inr (), \<lparr>world = [],
               calls = [(''account.login'', LoginParams \<lparr>User = ''user'', Pass = ''secret''\<rparr>),
                        (''account.unlock'', UnlockParams \<lparr>TAN = ''000000''\<rparr>)]\<rparr>)
   \<and> login scripted test_client ''user'' ''secret'' ''not base 32''
      (start [ok (TfaData ''GOOGLE-AUTH''), ok NullData]) =
     (Inl (LibraryError ''Decoding of secret as base32 failed.''),
      \<lparr>world = [ok NullData],
       calls = [(''account.login'', LoginParams \<lparr>User = ''user'', Pass = ''secret''\<rparr>)]\<rparr>)
   \<and> login scripted test_client ''user'' ''secret'' ''''
      (start [ok (TfaData ''0''), ok NullData]) =
     (Inr (), \<lparr>world = [ok NullData],
               calls = [(''account.login'', LoginParams \<lparr>User = ''user'', Pass = ''secret''\<rparr>)]\<rparr>)
   \<and> login scripted test_client ''user'' ''wrong'' ''''
      (start [failed 2200 ''Authentication error'']) =
     (Inl (ErrorResponse \<lparr>err_Code = 2200, err_Message = ''Authentication error'',
                           err_ReasonCode = '''', err_Reason = ''''\<rparr>),
      \<lparr>world = [],
       calls = [(''account.login'', LoginParams \<lparr>User = ''user'', Pass = ''wrong''\<rparr>)]\<rparr>)"
proof -
  let ?L = "\<lambda>pw. (''account.login'', LoginParams \<lparr>User = ''user'', Pass = pw\<rparr>)"
  have a: "call scripted test_client ''account.login''
             (LoginParams \<lparr>User = ''user'', Pass = ''secret''\<rparr>)
             (start [ok (TfaData ''GOOGLE-AUTH''), ok NullData]) =
           (Inr (TfaData ''GOOGLE-AUTH''), \<lparr>world = [ok NullData], calls = [?L ''secret'']\<rparr>)"
    by (simp add: call_def scripted_def scripted_roundTrip_def start_def ok_def checkResponse_def)
  have b: "call scripted test_client ''account.login''
             (LoginParams \<lparr>User = ''user'', Pass = ''secret''\<rparr>)
             (start [ok (TfaData ''0''), ok NullData]) =
           (Inr (TfaData ''0''), \<lparr>world = [ok NullData], calls = [?L ''secret'']\<rparr>)"
    by (simp add: call_def scripted_def scripted_roundTrip_def start_def ok_def checkResponse_def)
  have c: "call scripted test_client ''account.login''
             (LoginParams \<lparr>User = ''user'', Pass = ''wrong''\<rparr>)
             (start [failed 2200 ''Authentication error'']) =
           (Inl (ErrorResponse \<lparr>err_Code = 2200, err_Message = ''Authentication error'',
                                 err_ReasonCode = '''', err_Reason = ''''\<rparr>),
            \<lparr>world = [], calls = [?L ''wrong'']\<rparr>)"
    by (simp add: call_def scripted_def scripted_roundTrip_def start_def failed_def
          checkResponse_def)
  have u: "unlock scripted test_client ''000000''
             \<lparr>world = [ok NullData], calls = [?L ''secret'']\<rparr> =
           (Inr (), \<lparr>world = [],
                     calls = [?L ''secret'', (''account.unlock'', UnlockParams \<lparr>TAN = ''000000''\<rparr>)]\<rparr>)"
    by (simp add: unlock_def call_def scripted_def scripted_roundTrip_def ok_def
          checkResponse_def)
  have g1: "generateCode scripted ''JBSWY3DPEHPK3PXP'' [ok NullData] = Inr ''000000''"
    by (simp add: scripted_def base32_def)
  have g2: "generateCode scripted ''not base 32'' [ok NullData] =
              Inl ''Decoding of secret as base32 failed.''"
    by (simp add: scripted_def base32_def)
  have d1: "unmarshalLogin scripted (TfaData ''GOOGLE-AUTH'') = Inr ''GOOGLE-AUTH''"
    and d2: "unmarshalLogin scripted (TfaData ''0'') = Inr ''0''"
    by (simp_all add: scripted_def)
  show ?thesis
    using login_two_factor [OF a, of "''JBSWY3DPEHPK3PXP''"]
          login_two_factor [OF a, of "''not base 32''"]
          login_two_factor [OF b, of "''''"]
          login_two_factor [OF c, of "''''"]
          u g1 g2 d1 d2
    by simp
qed

section \<open>The session around an operation\<close>

lemma getClient_Inr: "getClient env p s = (Inr c, p1, s1) \<Longrightarrow> client p1 = Some c"
  by (auto simp: getClient_def split: option.splits sum.splits prod.splits)

lemma calls_logout: "calls (snd (logout env c s)) = calls s @ [(''account.logout'', NoParams)]"
proof -
  have "snd (logout env c s) = snd (call env c ''account.logout'' NoParams s)"
    by (simp add: logout_def split: prod.splits sum.splits)
  then show ?thesis by simp
qed

lemma deferRemoveClient_Some:
  "client p = Some c \<Longrightarrow>
   deferRemoveClient env (res, p, s) = (res, p\<lparr>client := None\<rparr>, snd (logout env c s))"
  by (simp add: deferRemoveClient_def removeClient_def)

lemma deferRemoveClient_None:
  "client p = None \<Longrightarrow> deferRemoveClient env (res, p, s) = (res, p, s)"
  by (simp add: deferRemoveClient_def removeClient_def)

section \<open>Append\<close>




section \<open>Set\<close>




lemma deleteRecord_calls:
  "deleteRecord env c nr s = (r, s1) \<Longrightarrow>
   calls s1 = calls s @ [(''nameserver.deleteRecord'', DeleteRecordParams \<lparr>delete_ID = ID nr\<rparr>)]"
  using calls_deleteRecord [of env c nr s] by simp



section \<open>Delete\<close>





section \<open>List\<close>

lemma GetRecords_loop_all:
  "\<forall>x \<in> set xs. \<exists>y. libdnsRecord env x zone = Inr y \<Longrightarrow>
   GetRecords_loop env zone xs acc = Inr (acc @ map (\<lambda>x. projr (libdnsRecord env x zone)) xs)"
  by (induction xs arbitrary: acc) auto

lemma GetRecords_loop_first_error:
  "\<forall>y \<in> set pre. \<exists>z. libdnsRecord env y zone = Inr z \<Longrightarrow>
   libdnsRecord env x zone = Inl e \<Longrightarrow>
   GetRecords_loop env zone (pre @ x # post) acc = Inl (ParsingRecord x (LibraryError e))"
  by (induction pre arbitrary: acc) auto

lemma GetRecords_loop_Inr:
  "GetRecords_loop env zone xs acc = Inr out \<Longrightarrow>
   \<forall>x \<in> set xs. \<exists>y. libdnsRecord env x zone = Inr y"
  by (induction xs arbitrary: acc) (auto split: sum.splits)

text \<open>
  C6. Once the session is open and the native records are fetched, \<^verbatim>\<open>GetRecords\<close> returns
  a list exactly when every fetched record decodes, and the list is then the decoded
  records in order. Otherwise it returns no list but the error of the first record that
  does not decode, which carries that record and the error of its decoding.
\<close>

theorem GetRecords_all_or_error:
  assumes "getClient env p s = (Inr c, p1, s1)"
    and "getRecords env c (getDomain zone) s1 = (Inr inwxRecords, s2)"
  shows "((\<exists>out. fst (GetRecords env p zone s) = Inr out) =
            (\<forall>x \<in> set inwxRecords. \<exists>y. libdnsRecord env x zone = Inr y))
    \<and> ((\<forall>x \<in> set inwxRecords. \<exists>y. libdnsRecord env x zone = Inr y) \<longrightarrow>
          fst (GetRecords env p zone s) =
            Inr (map (\<lambda>x. projr (libdnsRecord env x zone)) inwxRecords))
    \<and> (\<forall>pre x post e.
          inwxRecords = pre @ x # post
          \<and> (\<forall>y \<in> set pre. \<exists>z. libdnsRecord env y zone = Inr z)
          \<and> libdnsRecord env x zone = Inl e \<longrightarrow>
          fst (GetRecords env p zone s) = Inl (ParsingRecord x (LibraryError e)))"
proof -
  have cl: "client p1 = Some c"
    using assms(1) by (rule getClient_Inr)
  have res: "fst (GetRecords env p zone s) = GetRecords_loop env zone inwxRecords []"
    using assms cl by (simp add: GetRecords_def deferRemoveClient_Some)
  show ?thesis
    unfolding res
    using GetRecords_loop_all [of inwxRecords env zone "[]"]
          GetRecords_loop_first_error [of _ env zone _ _ _ "[]"]
          GetRecords_loop_Inr [of env zone inwxRecords "[]"]
    by auto
qed

lemma fmt_d_10: "fmt_d 10 = ''10''"
  by (simp add: fmt_d.simps)

theorem GetRecords_all_or_error_witness:
  "GetRecords scripted test_provider ''example.com.''
      (start [ok (TfaData ''0''),
              ok (RecordsData
                 [\<lparr>ID = ''1'', Name = ''test_1.example.com'', Type = ''TXT'',
                   Content = ''test_value_1'', TTL = 300, Priority = 0\<rparr>,
                  \<lparr>ID = ''4'', Name = ''test_4.example.com'', Type = ''MX'',
                   Content = ''mx.example.com'', TTL = 300, Priority = 10\<rparr>]),
              ok NullData]) =
     (Inr [TXT ''test_1'' (300 * Second) ''test_value_1'',
           MX ''test_4'' (300 * Second) 10 ''mx.example.com''],
      test_provider,
      \<lparr>world = [],
       calls = [(''account.login'', LoginParams \<lparr>User = ''user'', Pass = ''secret''\<rparr>),
                (''nameserver.info'', InfoParams
                   \<lparr>info_Domain = ''example.com'', info_Name = '''', info_Type = '''',
                    info_Content = '''', info_TTL = 0, info_Priority = 0\<rparr>),
                (''account.logout'', NoParams)]\<rparr>)
   \<and> fst (GetRecords scripted test_provider ''example.com.''
      (start [ok (TfaData ''0''),
              ok (RecordsData
                 [\<lparr>ID = ''1'', Name = ''test_1.example.com'', Type = ''TXT'',
                   Content = ''test_value_1'', TTL = 300, Priority = 0\<rparr>,
                  \<lparr>ID = ''4'', Name = ''test_4.example.com'', Type = ''MX'',
                   Content = ''mx.example.com and more'', TTL = 300, Priority = 10\<rparr>,
                  \<lparr>ID = ''5'', Name = ''test_5.example.com'', Type = ''TXT'',
                   Content = ''test_value_5'', TTL = 300, Priority = 0\<rparr>]),
              ok NullData])) =
     Inl (ParsingRecord
            \<lparr>ID = ''4'', Name = ''test_4.example.com'', Type = ''MX'',
             Content = ''mx.example.com and more'', TTL = 300, Priority = 10\<rparr>
            (LibraryError ''malformed MX value''))"
proof -
  let ?login = "(''account.login'', LoginParams \<lparr>User = ''user'', Pass = ''secret''\<rparr>)"
  let ?info = "(''nameserver.info'', InfoParams
                   \<lparr>info_Domain = ''example.com'', info_Name = '''', info_Type = '''',
                    info_Content = '''', info_TTL = 0, info_Priority = 0\<rparr>)"
  let ?n1 = "\<lparr>ID = ''1'', Name = ''test_1.example.com'', Type = ''TXT'',
              Content = ''test_value_1'', TTL = 300, Priority = 0\<rparr>"
  let ?n4 = "\<lparr>ID = ''4'', Name = ''test_4.example.com'', Type = ''MX'',
              Content = ''mx.example.com'', TTL = 300, Priority = 10\<rparr>"
  let ?bad = "\<lparr>ID = ''4'', Name = ''test_4.example.com'', Type = ''MX'',
               Content = ''mx.example.com and more'', TTL = 300, Priority = 10\<rparr>"
  let ?n5 = "\<lparr>ID = ''5'', Name = ''test_5.example.com'', Type = ''TXT'',
              Content = ''test_value_5'', TTL = 300, Priority = 0\<rparr>"
  let ?w = "[ok (TfaData ''0''), ok (RecordsData [?n1, ?bad, ?n5]), ok NullData]"
  have good: "GetRecords scripted test_provider ''example.com.''
      (start [ok (TfaData ''0''), ok (RecordsData [?n1, ?n4]), ok NullData]) =
     (Inr [TXT ''test_1'' (300 * Second) ''test_value_1'',
           MX ''test_4'' (300 * Second) 10 ''mx.example.com''],
      test_provider, \<lparr>world = [], calls = [?login, ?info, (''account.logout'', NoParams)]\<rparr>)"
    by (simp add: client_defs provider_defs scripted_defs fmt_d_10)
  have a: "getClient scripted test_provider (start ?w) =
     (Inr test_client, test_provider\<lparr>client := Some test_client\<rparr>,
      \<lparr>world = [ok (RecordsData [?n1, ?bad, ?n5]), ok NullData], calls = [?login]\<rparr>)"
    by (simp add: client_defs provider_defs scripted_defs)
  have b: "getRecords scripted test_client (getDomain ''example.com.'')
      \<lparr>world = [ok (RecordsData [?n1, ?bad, ?n5]), ok NullData], calls = [?login]\<rparr> =
     (Inr ([?n1] @ ?bad # [?n5]), \<lparr>world = [ok NullData], calls = [?login, ?info]\<rparr>)"
    by (simp add: client_defs provider_defs scripted_defs)
  have d1: "\<forall>y \<in> set [?n1]. \<exists>z. libdnsRecord scripted y ''example.com.'' = Inr z"
    by (simp add: provider_defs scripted_defs)
  have d2: "libdnsRecord scripted ?bad ''example.com.'' = Inl ''malformed MX value''"
    by (simp add: provider_defs scripted_defs fmt_d_10)
  have "fst (GetRecords scripted test_provider ''example.com.'' (start ?w)) =
          Inl (ParsingRecord ?bad (LibraryError ''malformed MX value''))"
    using GetRecords_all_or_error [OF a b] d1 d2 by blast
  with good show ?thesis by simp
qed

section \<open>The session is released, and the logout cannot change the result\<close>

lemma client_deferRemoveClient:
  "client (fst (snd (deferRemoveClient env (res, p, s)))) = None"
  by (simp add: deferRemoveClient_def removeClient_def split: option.splits)

lemma fst_deferRemoveClient: "fst (deferRemoveClient env (res, p, s)) = res"
  by (simp add: deferRemoveClient_def split: prod.splits)

lemma call_same:
  "sameButLogout env env' \<Longrightarrow> m \<noteq> ''account.logout'' \<Longrightarrow>
   call env c m ps s = call env' c m ps s"
  by (simp add: call_def sameButLogout_def)

lemma sameButLogout_libraries:
  assumes "sameButLogout env env'"
  shows "unmarshalInfo env = unmarshalInfo env'" and "unmarshalCreate env = unmarshalCreate env'"
    and "unmarshalLogin env = unmarshalLogin env'" and "generateCode env = generateCode env'"
    and "cookiejarNew env = cookiejarNew env'" and "RelativeName env = RelativeName env'"
    and "Parse env = Parse env'"
  using assms by (simp_all add: sameButLogout_def)

lemma getRecords_same:
  assumes "sameButLogout env env'"
  shows "getRecords env c domain s = getRecords env' c domain s"
  by (simp add: getRecords_def call_same [OF assms] sameButLogout_libraries [OF assms]
        split: prod.splits sum.splits)

lemma findRecords_same:
  assumes "sameButLogout env env'"
  shows "findRecords env c nr domain b s = findRecords env' c nr domain b s"
  by (simp add: findRecords_def call_same [OF assms] sameButLogout_libraries [OF assms]
        split: prod.splits sum.splits)

lemma createRecord_same:
  assumes "sameButLogout env env'"
  shows "createRecord env c nr domain s = createRecord env' c nr domain s"
  by (simp add: createRecord_def call_same [OF assms] sameButLogout_libraries [OF assms]
        split: prod.splits sum.splits)

lemma updateRecord_same:
  assumes "sameButLogout env env'"
  shows "updateRecord env c nr s = updateRecord env' c nr s"
  by (simp add: updateRecord_def call_same [OF assms])

lemma deleteRecord_same:
  assumes "sameButLogout env env'"
  shows "deleteRecord env c nr s = deleteRecord env' c nr s"
  by (simp add: deleteRecord_def call_same [OF assms])

lemma unlock_same:
  assumes "sameButLogout env env'"
  shows "unlock env c tan s = unlock env' c tan s"
  by (simp add: unlock_def call_same [OF assms])

lemma login_same:
  assumes "sameButLogout env env'"
  shows "login env c u pw secret s = login env' c u pw secret s"
  by (simp add: login_def call_same [OF assms] unlock_same [OF assms]
        sameButLogout_libraries [OF assms] split: prod.splits sum.splits)

lemma getClient_same:
  assumes "sameButLogout env env'"
  shows "getClient env p s = getClient env' p s"
  by (simp add: getClient_def newClient_def login_same [OF assms]
        sameButLogout_libraries [OF assms] split: prod.splits sum.splits option.splits)

lemma libdnsRecord_same:
  assumes "sameButLogout env env'"
  shows "libdnsRecord env nr zone = libdnsRecord env' nr zone"
  by (simp add: libdnsRecord_def libdnsRR_def sameButLogout_libraries [OF assms])

lemma GetRecords_loop_same:
  "sameButLogout env env' \<Longrightarrow>
   GetRecords_loop env zone xs acc = GetRecords_loop env' zone xs acc"
  by (induction xs arbitrary: acc) (simp_all add: libdnsRecord_same split: sum.splits)

lemma AppendRecords_loop_same:
  "sameButLogout env env' \<Longrightarrow>
   AppendRecords_loop env c zone rs acc s = AppendRecords_loop env' c zone rs acc s"
  by (induction rs arbitrary: acc s) (simp_all add: createRecord_same split: prod.splits sum.splits)

lemma SetRecords_record_same:
  "sameButLogout env env' \<Longrightarrow>
   SetRecords_record env c zone r s = SetRecords_record env' c zone r s"
  by (simp add: SetRecords_record_def findRecords_same createRecord_same updateRecord_same
        split: prod.splits sum.splits)

lemma SetRecords_loop_same:
  "sameButLogout env env' \<Longrightarrow>
   SetRecords_loop env c zone rs acc s = SetRecords_loop env' c zone rs acc s"
  by (induction rs arbitrary: acc s) (simp_all add: SetRecords_record_same split: prod.splits option.splits)

lemma DeleteRecords_matches_same:
  "sameButLogout env env' \<Longrightarrow>
   DeleteRecords_matches env c r ms acc s = DeleteRecords_matches env' c r ms acc s"
  by (induction ms arbitrary: acc s) (simp_all add: deleteRecord_same split: prod.splits sum.splits)

lemma DeleteRecords_record_same:
  "sameButLogout env env' \<Longrightarrow>
   DeleteRecords_record env c zone r acc s = DeleteRecords_record env' c zone r acc s"
  by (simp add: DeleteRecords_record_def findRecords_same DeleteRecords_matches_same
        split: prod.splits sum.splits)

lemma DeleteRecords_loop_same:
  "sameButLogout env env' \<Longrightarrow>
   DeleteRecords_loop env c zone rs acc s = DeleteRecords_loop env' c zone rs acc s"
  by (induction rs arbitrary: acc s) (simp_all add: DeleteRecords_record_same split: prod.splits sum.splits)

lemma deferRemoveClient_logout:
  "client (fst (snd x)) \<noteq> None \<Longrightarrow>
   last (calls (snd (snd (deferRemoveClient env x)))) = (''account.logout'', NoParams)"
  by (cases x) (auto simp: deferRemoveClient_def removeClient_def calls_logout)

text \<open>
  C9. After each of the four operations the provider holds no client, whatever the state
  before and however the operation ends; and when \<^verbatim>\<open>getClient\<close> has left a client in the
  provider, be it after a failed login, the last call of the operation is
  \<^verbatim>\<open>account.logout\<close>. The value an operation returns does not depend on that logout: in
  two environments that differ only in how \<^verbatim>\<open>account.logout\<close> is answered (answered well
  in one, failing in the other), each operation returns the same records or the same
  error.
\<close>

theorem session_released:
  assumes "sameButLogout env env'"
  shows "client (fst (snd (GetRecords env p zone s))) = None
    \<and> client (fst (snd (AppendRecords env p zone records s))) = None
    \<and> client (fst (snd (SetRecords env p zone records s))) = None
    \<and> client (fst (snd (DeleteRecords env p zone records s))) = None
    \<and> (client (fst (snd (getClient env p s))) \<noteq> None \<longrightarrow>
         last (calls (snd (snd (GetRecords env p zone s)))) = (''account.logout'', NoParams)
         \<and> last (calls (snd (snd (AppendRecords env p zone records s)))) =
             (''account.logout'', NoParams)
         \<and> last (calls (snd (snd (SetRecords env p zone records s)))) =
             (''account.logout'', NoParams)
         \<and> last (calls (snd (snd (DeleteRecords env p zone records s)))) =
             (''account.logout'', NoParams))
    \<and> fst (GetRecords env p zone s) = fst (GetRecords env' p zone s)
    \<and> fst (AppendRecords env p zone records s) = fst (AppendRecords env' p zone records s)
    \<and> fst (SetRecords env p zone records s) = fst (SetRecords env' p zone records s)
    \<and> fst (DeleteRecords env p zone records s) = fst (DeleteRecords env' p zone records s)"
proof -
  have released: "\<And>x :: (error + Record list) \<times> Provider \<times> 'a state.
      client (fst (snd (deferRemoveClient env x))) = None"
    by (metis client_deferRemoveClient prod_cases3)
  have result: "\<And>e (x :: (error + Record list) \<times> Provider \<times> 'a state).
      fst (deferRemoveClient e x) = fst x"
    by (metis fst_deferRemoveClient fst_conv prod_cases3)
  have g: "fst (GetRecords env p zone s) = fst (GetRecords env' p zone s)"
    unfolding GetRecords_def result
    by (simp add: getClient_same [OF assms] getRecords_same [OF assms]
          GetRecords_loop_same [OF assms] split: prod.splits sum.splits)
  have a: "fst (AppendRecords env p zone records s) = fst (AppendRecords env' p zone records s)"
    unfolding AppendRecords_def result
    by (simp add: getClient_same [OF assms] AppendRecords_loop_same [OF assms]
          split: prod.splits sum.splits)
  have t: "fst (SetRecords env p zone records s) = fst (SetRecords env' p zone records s)"
    unfolding SetRecords_def result
    by (simp add: getClient_same [OF assms] SetRecords_loop_same [OF assms]
          split: prod.splits sum.splits)
  have d: "fst (DeleteRecords env p zone records s) = fst (DeleteRecords env' p zone records s)"
    unfolding DeleteRecords_def result
    by (simp add: getClient_same [OF assms] DeleteRecords_loop_same [OF assms]
          split: prod.splits sum.splits)
  have lg: "client (fst (snd (getClient env p s))) \<noteq> None \<Longrightarrow>
      last (calls (snd (snd (GetRecords env p zone s)))) = (''account.logout'', NoParams)"
    unfolding GetRecords_def
    by (rule deferRemoveClient_logout) (auto split: prod.splits sum.splits)
  have la: "client (fst (snd (getClient env p s))) \<noteq> None \<Longrightarrow>
      last (calls (snd (snd (AppendRecords env p zone records s)))) =
        (''account.logout'', NoParams)"
    unfolding AppendRecords_def
    by (rule deferRemoveClient_logout) (auto split: prod.splits sum.splits)
  have lt: "client (fst (snd (getClient env p s))) \<noteq> None \<Longrightarrow>
      last (calls (snd (snd (SetRecords env p zone records s)))) =
        (''account.logout'', NoParams)"
    unfolding SetRecords_def
    by (rule deferRemoveClient_logout) (auto split: prod.splits sum.splits)
  have ld: "client (fst (snd (getClient env p s))) \<noteq> None \<Longrightarrow>
      last (calls (snd (snd (DeleteRecords env p zone records s)))) =
        (''account.logout'', NoParams)"
    unfolding DeleteRecords_def
    by (rule deferRemoveClient_logout) (auto split: prod.splits sum.splits)
  show ?thesis
    using g a t d lg la lt ld
    by (simp add: GetRecords_def AppendRecords_def SetRecords_def DeleteRecords_def released)
qed

theorem session_released_witness:
  "sameButLogout scripted scripted_logout_fails
   \<and> SetRecords scripted_logout_fails test_provider ''example.com.''
       [TXT ''test_3'' (300 * Second) ''test_value_3_new'']
       (start [ok (TfaData ''0''),
               ok (RecordsData
                  [\<lparr>ID = ''3'', Name = ''test_3.example.com'', Type = ''TXT'',
                    Content = ''a'', TTL = 300, Priority = 0\<rparr>,
                   \<lparr>ID = ''4'', Name = ''test_3.example.com'', Type = ''TXT'',
                    Content = ''b'', TTL = 300, Priority = 0\<rparr>]),
               ok NullData]) =
     (Inl (MoreThanOne (TXT ''test_3'' (300 * Second) ''test_value_3_new'')),
      test_provider,
      \<lparr>world = [ok NullData],
       calls = [(''account.login'', LoginParams \<lparr>User = ''user'', Pass = ''secret''\<rparr>),
                (''nameserver.info'', InfoParams
                   \<lparr>info_Domain = ''example.com'', info_Name = ''test_3'',
                    info_Type = ''TXT'', info_Content = '''', info_TTL = 0,
                    info_Priority = 0\<rparr>),
                (''account.logout'', NoParams)]\<rparr>)
   \<and> fst (SetRecords scripted test_provider ''example.com.''
       [TXT ''test_3'' (300 * Second) ''test_value_3_new'']
       (start [ok (TfaData ''0''),
               ok (RecordsData
                  [\<lparr>ID = ''3'', Name = ''test_3.example.com'', Type = ''TXT'',
                    Content = ''a'', TTL = 300, Priority = 0\<rparr>,
                   \<lparr>ID = ''4'', Name = ''test_3.example.com'', Type = ''TXT'',
                    Content = ''b'', TTL = 300, Priority = 0\<rparr>]),
               ok NullData])) =
     Inl (MoreThanOne (TXT ''test_3'' (300 * Second) ''test_value_3_new''))"
proof -
  let ?rs = "[TXT ''test_3'' (300 * Second) ''test_value_3_new'']"
  let ?s = "start [ok (TfaData ''0''),
               ok (RecordsData
                  [\<lparr>ID = ''3'', Name = ''test_3.example.com'', Type = ''TXT'',
                    Content = ''a'', TTL = 300, Priority = 0\<rparr>,
                   \<lparr>ID = ''4'', Name = ''test_3.example.com'', Type = ''TXT'',
                    Content = ''b'', TTL = 300, Priority = 0\<rparr>]),
               ok NullData]"
  have same: "sameButLogout scripted scripted_logout_fails"
    by (simp add: sameButLogout_def scripted_logout_fails_def scripted_def)
  have run: "SetRecords scripted_logout_fails test_provider ''example.com.'' ?rs ?s =
     (Inl (MoreThanOne (TXT ''test_3'' (300 * Second) ''test_value_3_new'')),
      test_provider,
      \<lparr>world = [ok NullData],
       calls = [(''account.login'', LoginParams \<lparr>User = ''user'', Pass = ''secret''\<rparr>),
                (''nameserver.info'', InfoParams
                   \<lparr>info_Domain = ''example.com'', info_Name = ''test_3'',
                    info_Type = ''TXT'', info_Content = '''', info_TTL = 0,
                    info_Priority = 0\<rparr>),
                (''account.logout'', NoParams)]\<rparr>)"
    by (simp add: client_defs provider_defs scripted_defs scripted_logout_fails_def)
  have "fst (SetRecords scripted test_provider ''example.com.'' ?rs ?s) =
        fst (SetRecords scripted_logout_fails test_provider ''example.com.'' ?rs ?s)"
    using session_released [OF same, of test_provider "''example.com.''" ?s ?rs] by blast
  with same run show ?thesis by simp
qed

section \<open>The codec\<close>







end
